theory Spec2Isabelle
  imports Complex_Main "HOL-Library.Sublist"
begin

section \<open>Python values and the operations the script applies to them\<close>

text \<open>
  Every response of the remote service reaches the script as a decoded JSON document,
  that is, as nested Python values. \<open>PNone\<close> is Python's \<open>None\<close> (and, inside a pandas
  frame, the missing-value marker: pandas treats \<open>None\<close> and \<open>NaN\<close> alike as null).
  A dictionary is an association list from string keys to values; a dictionary decoded
  from JSON has distinct keys, and a lookup takes the first entry of a key.
\<close>

datatype pyval =
    PNone
  | PBool bool
  | PNum rat
  | PStr string
  | PList "pyval list"
  | PDict "(string \<times> pyval) list"

text \<open>
  Exceptions. \<open>SpotifyException\<close> is the service-level error of the client library;
  the others are the built-in errors the script's own expressions can raise, and
  \<open>OtherError\<close> stands for any further exception a call into a library may raise
  (a transport error, for instance). \<open>SpotifyException\<close> carries its message.
\<close>

datatype exn =
    SpotifyException string
  | KeyError
  | TypeError
  | AttributeError
  | IndexError
  | ValueError
  | PandasError
  | OtherError string

text \<open>
  A computation that returns a value or raises is a sum: \<open>Inl e\<close> raises \<open>e\<close>,
  \<open>Inr v\<close> returns \<open>v\<close>. \<open>and_then\<close> sequences two of them: the first exception wins.
\<close>

fun and_then :: "exn + 'a \<Rightarrow> ('a \<Rightarrow> exn + 'b) \<Rightarrow> exn + 'b" where
  "and_then (Inl e) f = Inl e"
| "and_then (Inr v) f = f v"

fun map_result :: "('a \<Rightarrow> exn + 'b) \<Rightarrow> 'a list \<Rightarrow> exn + 'b list" where
  "map_result f [] = Inr []"
| "map_result f (x # xs) =
     and_then (f x) (\<lambda>y. and_then (map_result f xs) (\<lambda>ys. Inr (y # ys)))"

text \<open>Truth value of an object, as \<open>if x\<close> and \<open>not x\<close> test it.\<close>

fun truthy :: "pyval \<Rightarrow> bool" where
  "truthy PNone = False"
| "truthy (PBool b) = b"
| "truthy (PNum n) = (n \<noteq> 0)"
| "truthy (PStr s) = (s \<noteq> [])"
| "truthy (PList xs) = (xs \<noteq> [])"
| "truthy (PDict d) = (d \<noteq> [])"

text \<open>\<open>x.get(k, default)\<close>: only a dictionary has the method.\<close>

fun dict_get :: "pyval \<Rightarrow> string \<Rightarrow> pyval \<Rightarrow> exn + pyval" where
  "dict_get (PDict d) k dflt = Inr (case map_of d k of Some v \<Rightarrow> v | None \<Rightarrow> dflt)"
| "dict_get _ k dflt = Inl AttributeError"

text \<open>\<open>x[k]\<close> for a string key \<open>k\<close>.\<close>

fun subscript :: "pyval \<Rightarrow> string \<Rightarrow> exn + pyval" where
  "subscript (PDict d) k = (case map_of d k of Some v \<Rightarrow> Inr v | None \<Rightarrow> Inl KeyError)"
| "subscript _ k = Inl TypeError"

text \<open>\<open>x[0]\<close>. The keys of a decoded JSON object are strings, so \<open>0\<close> is never a key.\<close>

fun first_item :: "pyval \<Rightarrow> exn + pyval" where
  "first_item (PList (x # xs)) = Inr x"
| "first_item (PList []) = Inl IndexError"
| "first_item (PStr (c # cs)) = Inr (PStr [c])"
| "first_item (PStr []) = Inl IndexError"
| "first_item (PDict d) = Inl KeyError"
| "first_item _ = Inl TypeError"

text \<open>
  The elements an object yields when it is iterated (\<open>for x in v\<close>, \<open>list.extend(v)\<close>):
  a list yields its elements, a string its characters, a dictionary its keys.
\<close>

fun iterate :: "pyval \<Rightarrow> exn + pyval list" where
  "iterate (PList xs) = Inr xs"
| "iterate (PStr s) = Inr (map (\<lambda>c. PStr [c]) s)"
| "iterate (PDict d) = Inr (map (\<lambda>kv. PStr (fst kv)) d)"
| "iterate _ = Inl TypeError"

section \<open>The remote service and the trace of a run\<close>

text \<open>
  A run is observed through its trace: every request to the service with the outcome it
  had (a returned document, or a raised exception), every pause, everything printed and
  every figure shown, in the order in which they happen.
\<close>

record dataframe =
  columns :: "string list"
  rows :: "pyval list list"

datatype event =
    Search string "exn + pyval"
  | ArtistTopTracks pyval string "exn + pyval"
  | AudioFeatures "pyval list" "exn + pyval"
  | PlaylistItems string "exn + pyval"
  | NextPage pyval "exn + pyval"
  | Sleep_ms nat
  | Print "pyval list"
  | PrintHead dataframe
  | ShowFigure dataframe

text \<open>
  The client handle \<open>sp\<close>. The script does not control the service, so each operation
  is a parameter; its answer may depend on the request and on everything that happened
  before (the trace so far).
\<close>

record spotify =
  search :: "event list \<Rightarrow> string \<Rightarrow> exn + pyval"
  artist_top_tracks :: "event list \<Rightarrow> pyval \<Rightarrow> string \<Rightarrow> exn + pyval"
  audio_features :: "event list \<Rightarrow> pyval list \<Rightarrow> exn + pyval"
  playlist_items :: "event list \<Rightarrow> string \<Rightarrow> exn + pyval"
  next_page :: "event list \<Rightarrow> pyval \<Rightarrow> exn + pyval"

section \<open>Helpers\<close>

text \<open>
  \<open>range(0, stop, step)\<close> for a positive step. (Python raises \<open>ValueError\<close> for step 0;
  the only caller passes 100.)
\<close>

definition py_range :: "nat \<Rightarrow> nat \<Rightarrow> nat list" where
  "py_range stop step = map (\<lambda>k. k * step) [0 ..< (stop + step - 1) div step]"

text \<open>\<open>chunked\<close>: the slices \<open>lst[i:i + n]\<close> for \<open>i\<close> in \<open>range(0, len(lst), n)\<close>.\<close>

definition chunked :: "'a list \<Rightarrow> nat \<Rightarrow> 'a list list" where
  "chunked lst n = map (\<lambda>i. take n (drop i lst)) (py_range (length lst) n)"

text \<open>
  The loop of \<open>safe_audio_features\<close> over the batches still to be requested, with the
  accumulator \<open>all_feats\<close>. A \<open>SpotifyException\<close> is caught: two lines are printed and
  the result is \<open>None\<close>. Any other exception leaves the function. After a batch that
  went through, the loop body sleeps 0.1 seconds.
\<close>

fun feature_loop ::
  "spotify \<Rightarrow> pyval list list \<Rightarrow> pyval list \<Rightarrow> event list
     \<Rightarrow> (exn + pyval list option) \<times> event list" where
  "feature_loop sp [] all_feats h = (Inr (Some all_feats), h)"
| "feature_loop sp (batch # rest) all_feats h =
     (let r = audio_features sp h batch;
          h1 = h @ [AudioFeatures batch r]
      in case r of
           Inl (SpotifyException msg) \<Rightarrow>
             (Inr None,
              h1 @ [Print [PStr ''audio_features() failed:'', PStr msg],
                    Print [PStr ''This could be due to Spotify restricting the audio-features endpoint for new apps.'']])
         | Inl e \<Rightarrow> (Inl e, h1)
         | Inr feats \<Rightarrow>
             (case iterate feats of
                Inl e \<Rightarrow> (Inl e, h1)
              | Inr fs \<Rightarrow> feature_loop sp rest (all_feats @ fs) (h1 @ [Sleep_ms 100])))"

definition safe_audio_features ::
  "spotify \<Rightarrow> pyval list \<Rightarrow> event list \<Rightarrow> (exn + pyval list option) \<times> event list" where
  "safe_audio_features sp track_ids h = feature_loop sp (chunked track_ids 100) [] h"

text \<open>
  The requests for audio features that a trace holds, each with its outcome; the
  records a returned document contributes; and whether a request returned a list.
\<close>

fun feature_requests :: "event list \<Rightarrow> (pyval list \<times> (exn + pyval)) list" where
  "feature_requests [] = []"
| "feature_requests (AudioFeatures b out # es) = (b, out) # feature_requests es"
| "feature_requests (e # es) = feature_requests es"

fun records_of :: "exn + pyval \<Rightarrow> pyval list" where
  "records_of (Inr v) = (case iterate v of Inr fs \<Rightarrow> fs | Inl e \<Rightarrow> [])"
| "records_of (Inl e) = []"

fun returned_list :: "exn + pyval \<Rightarrow> bool" where
  "returned_list (Inr (PList fs)) = True"
| "returned_list _ = False"

text \<open>
  A request went through when it returned a document that can be iterated (so that
  \<open>extend\<close> accepts it); otherwise it failed: it raised, or \<open>extend\<close> raised on what it
  returned.
\<close>

fun went_through :: "exn + pyval \<Rightarrow> bool" where
  "went_through (Inr v) = (case iterate v of Inr fs \<Rightarrow> True | Inl e \<Rightarrow> False)"
| "went_through (Inl e) = False"

section \<open>Tasks\<close>

text \<open>
  \<open>search_artist\<close>: one search request (type artist, limit 1) for the query
  \<open>artist:<name>\<close>, then \<open>res.get("artists", {}).get("items", [])\<close>; \<open>None\<close> when the
  items are falsy, else \<open>items[0]\<close>.
\<close>

definition search_artist ::
  "spotify \<Rightarrow> string \<Rightarrow> event list \<Rightarrow> (exn + pyval) \<times> event list" where
  "search_artist sp artist_name h =
     (let q = ''artist:'' @ artist_name;
          r = search sp h q;
          h1 = h @ [Search q r]
      in case r of
           Inl e \<Rightarrow> (Inl e, h1)
         | Inr res \<Rightarrow>
             (case and_then (dict_get res ''artists'' (PDict []))
                            (\<lambda>a. dict_get a ''items'' (PList [])) of
                Inl e \<Rightarrow> (Inl e, h1)
              | Inr items \<Rightarrow>
                  if \<not> truthy items then (Inr PNone, h1)
                  else (first_item items, h1)))"

definition artist_top_tracks_in_market ::
  "spotify \<Rightarrow> pyval \<Rightarrow> string \<Rightarrow> event list \<Rightarrow> (exn + pyval) \<times> event list" where
  "artist_top_tracks_in_market sp artist_id market h =
     (let r = artist_top_tracks sp h artist_id market;
          h1 = h @ [ArtistTopTracks artist_id market r]
      in case r of
           Inl e \<Rightarrow> (Inl e, h1)
         | Inr top_doc \<Rightarrow> (dict_get top_doc ''tracks'' (PList []), h1))"

text \<open>
  The \<open>while\<close> loop of \<open>get_playlist_tracks\<close>. Nothing bounds the number of pages the
  service hands out, so the loop need not end: the model returns \<open>None\<close> when it does
  not. In \<open>tracks.extend(results['items'])\<close> the method is looked up first (only a list
  has it), then the argument is evaluated, then it is iterated.
\<close>

partial_function (option) playlist_loop ::
  "spotify \<Rightarrow> pyval \<Rightarrow> pyval \<Rightarrow> event list \<Rightarrow> ((exn + pyval) \<times> event list) option" where
  "playlist_loop sp results tracks h =
     (case dict_get results ''next'' PNone of
        Inl e \<Rightarrow> Some (Inl e, h)
      | Inr nxt \<Rightarrow>
          if \<not> truthy nxt then Some (Inr tracks, h)
          else
            (let r = next_page sp h results;
                 h1 = h @ [NextPage results r]
             in case r of
                  Inl e \<Rightarrow> Some (Inl e, h1)
                | Inr results' \<Rightarrow>
                    (case tracks of
                       PList xs \<Rightarrow>
                         (case and_then (subscript results' ''items'') iterate of
                            Inl e \<Rightarrow> Some (Inl e, h1)
                          | Inr ys \<Rightarrow> playlist_loop sp results' (PList (xs @ ys)) h1)
                     | _ \<Rightarrow> Some (Inl AttributeError, h1))))"

declare playlist_loop.simps [code]

definition get_playlist_tracks ::
  "spotify \<Rightarrow> string \<Rightarrow> event list \<Rightarrow> ((exn + pyval) \<times> event list) option" where
  "get_playlist_tracks sp playlist_id h =
     (let r = playlist_items sp h playlist_id;
          h1 = h @ [PlaylistItems playlist_id r]
      in case r of
           Inl e \<Rightarrow> Some (Inl e, h1)
         | Inr results \<Rightarrow>
             (case subscript results ''items'' of
                Inl e \<Rightarrow> Some (Inl e, h1)
              | Inr tracks \<Rightarrow> playlist_loop sp results tracks h1))"

text \<open>
  A chain of pages: every page holds an item list; every page but the last carries a
  next-page cursor, and the service answers a request for the page after it with the
  following page of the chain; the last page carries no cursor.
\<close>

fun items_of :: "pyval \<Rightarrow> pyval list option" where
  "items_of (PDict d) = (case map_of d ''items'' of Some (PList xs) \<Rightarrow> Some xs | _ \<Rightarrow> None)"
| "items_of _ = None"

fun has_next :: "pyval \<Rightarrow> bool" where
  "has_next (PDict d) = (case map_of d ''next'' of Some v \<Rightarrow> truthy v | None \<Rightarrow> False)"
| "has_next _ = False"

fun page_chain :: "spotify \<Rightarrow> pyval list \<Rightarrow> bool" where
  "page_chain sp [] = False"
| "page_chain sp [p] = (items_of p \<noteq> None \<and> \<not> has_next p)"
| "page_chain sp (p # q # ps) =
     (items_of p \<noteq> None \<and> has_next p \<and> (\<forall>h. next_page sp h p = Inr q) \<and> page_chain sp (q # ps))"

section \<open>Tables\<close>

text \<open>
  The two operations of the table library that the script uses, as the library documents
  them. \<open>DataFrame\<close> of a list of dictionaries has the keys as columns, in the order in
  which they first appear, one row per dictionary, and null where a dictionary lacks a
  key. A list with an element that is not a dictionary is outside this model: there the
  library either raises or builds a frame without named columns, on which the merge
  below raises; the model keeps only that an exception is raised.
\<close>

fun is_dict :: "pyval \<Rightarrow> bool" where
  "is_dict (PDict d) = True"
| "is_dict _ = False"

fun entries :: "pyval \<Rightarrow> (string \<times> pyval) list" where
  "entries (PDict d) = d"
| "entries _ = []"

definition first_seen :: "'a list \<Rightarrow> 'a list" where
  "first_seen xs = rev (remdups (rev xs))"

definition field :: "pyval \<Rightarrow> string \<Rightarrow> pyval" where
  "field d c = (case map_of (entries d) c of Some v \<Rightarrow> v | None \<Rightarrow> PNone)"

definition column_names :: "pyval list \<Rightarrow> string list" where
  "column_names data = first_seen (concat (map (\<lambda>d. map fst (entries d)) data))"

definition DataFrame :: "pyval list \<Rightarrow> exn + dataframe" where
  "DataFrame data =
     (if list_all is_dict data
      then Inr \<lparr>columns = column_names data,
               rows = map (\<lambda>d. map (field d) (column_names data)) data\<rparr>
      else Inl PandasError)"


text \<open>
  \<open>left.merge(right, left_on=..., right_on=..., how='left')\<close>: \<open>KeyError\<close> when a key
  column is missing. The library then compares the kinds of the two key columns and
  refuses, with \<open>ValueError\<close>, to merge a column of strings with a column of numbers
  (nulls aside). Otherwise the rows of the left frame in their order; each is paired
  with every row of the right frame that has the same key, in the right frame's order,
  or with nulls when there is none. Both key columns are kept; a column name that
  occurs in both frames gets the suffix \<open>_x\<close> on the left and \<open>_y\<close> on the right.
  The theorems below are about key columns that hold strings (and, on the left, nulls);
  key columns of other or mixed kinds are not covered by them.
\<close>

fun is_str :: "pyval \<Rightarrow> bool" where
  "is_str (PStr s) = True"
| "is_str _ = False"

fun is_number :: "pyval \<Rightarrow> bool" where
  "is_number (PNum n) = True"
| "is_number _ = False"

definition text_column :: "pyval list \<Rightarrow> bool" where
  "text_column cells = (list_all (\<lambda>v. is_str v \<or> v = PNone) cells \<and> list_ex is_str cells)"

definition number_column :: "pyval list \<Rightarrow> bool" where
  "number_column cells = (list_all (\<lambda>v. is_number v \<or> v = PNone) cells \<and> list_ex is_number cells)"

fun index_of :: "'a \<Rightarrow> 'a list \<Rightarrow> nat option" where
  "index_of c [] = None"
| "index_of c (x # xs) = (if x = c then Some 0 else map_option Suc (index_of c xs))"

definition cell :: "pyval list \<Rightarrow> nat \<Rightarrow> pyval" where
  "cell r j = (if j < length r then r ! j else PNone)"

definition with_suffix :: "string list \<Rightarrow> string \<Rightarrow> string \<Rightarrow> string" where
  "with_suffix other sfx c = (if c \<in> set other then c @ sfx else c)"

definition matches :: "dataframe \<Rightarrow> nat \<Rightarrow> pyval \<Rightarrow> pyval list list" where
  "matches right j k = filter (\<lambda>r. cell r j = k) (rows right)"

definition joined_rows :: "dataframe \<Rightarrow> nat \<Rightarrow> nat \<Rightarrow> pyval list \<Rightarrow> pyval list list" where
  "joined_rows right i j l =
     (if matches right j (cell l i) = []
      then [l @ replicate (length (columns right)) PNone]
      else map (\<lambda>r. l @ r) (matches right j (cell l i)))"

definition key_cells :: "dataframe \<Rightarrow> nat \<Rightarrow> pyval list" where
  "key_cells df i = map (\<lambda>r. cell r i) (rows df)"

definition merge_left :: "dataframe \<Rightarrow> dataframe \<Rightarrow> string \<Rightarrow> string \<Rightarrow> exn + dataframe" where
  "merge_left left right left_on right_on =
     (case (index_of left_on (columns left), index_of right_on (columns right)) of
        (Some i, Some j) \<Rightarrow>
          if text_column (key_cells left i) \<and> number_column (key_cells right j) \<or>
             number_column (key_cells left i) \<and> text_column (key_cells right j)
          then Inl ValueError
          else
            Inr \<lparr>columns = map (with_suffix (columns right) ''_x'') (columns left)
                           @ map (with_suffix (columns left) ''_y'') (columns right),
                 rows = concat (map (joined_rows right i j) (rows left))\<rparr>
      | _ \<Rightarrow> Inl KeyError)"

section \<open>The example analysis\<close>

text \<open>\<open>", ".join(names)\<close>: every element must be a string.\<close>

fun join_str :: "string \<Rightarrow> pyval list \<Rightarrow> exn + string" where
  "join_str sep [] = Inr []"
| "join_str sep [PStr s] = Inr s"
| "join_str sep (PStr s # v # vs) = and_then (join_str sep (v # vs)) (\<lambda>t. Inr (s @ sep @ t))"
| "join_str sep _ = Inl TypeError"

text \<open>
  One pass of the loop that builds \<open>tracks_meta\<close> and \<open>track_ids\<close>: the dictionary
  appended to the first and the identifier appended to the second.
\<close>

definition track_meta :: "pyval \<Rightarrow> exn + pyval \<times> pyval" where
  "track_meta t =
     and_then (subscript t ''artists'') (\<lambda>arts.
     and_then (iterate arts) (\<lambda>as.
     and_then (map_result (\<lambda>a. subscript a ''name'') as) (\<lambda>names.
     and_then (join_str '', '' names) (\<lambda>artists.
     and_then (subscript t ''name'') (\<lambda>track_name.
     and_then (subscript t ''id'') (\<lambda>track_id.
     and_then (subscript t ''album'') (\<lambda>album.
     and_then (subscript album ''name'') (\<lambda>album_name.
     and_then (dict_get t ''popularity'' PNone) (\<lambda>popularity.
     and_then (dict_get t ''duration_ms'' PNone) (\<lambda>duration_ms.
       Inr (PDict [(''track_name'', track_name), (''track_id'', track_id),
                   (''artists'', PStr artists), (''album'', album_name),
                   (''popularity'', popularity), (''duration_ms'', duration_ms)],
            track_id)))))))))))"

text \<open>The columns of the metadata frame: the keys of the dictionaries of \<open>tracks_meta\<close>.\<close>

definition meta_columns :: "string list" where
  "meta_columns = [''track_name'', ''track_id'', ''artists'', ''album'', ''popularity'', ''duration_ms'']"

text \<open>
  The last step of \<open>analyze_artist\<close>: the frame of the feature records, merged onto the
  metadata frame on the track identifier.
\<close>

definition merge_features :: "dataframe \<Rightarrow> pyval list \<Rightarrow> exn + dataframe" where
  "merge_features df_meta feats =
     and_then (DataFrame feats) (\<lambda>df_feats. merge_left df_meta df_feats ''track_id'' ''id'')"

definition analyze_artist ::
  "spotify \<Rightarrow> string \<Rightarrow> string \<Rightarrow> event list \<Rightarrow> (exn + dataframe option) \<times> event list" where
  "analyze_artist sp artist_name market h =
     (case search_artist sp artist_name h of
        (Inl e, h1) \<Rightarrow> (Inl e, h1)
      | (Inr artist, h1) \<Rightarrow>
          if \<not> truthy artist
          then (Inr None, h1 @ [Print [PStr ''Artist not found:'', PStr artist_name]])
          else
            (case and_then (subscript artist ''id'') (\<lambda>artist_id.
                  and_then (subscript artist ''name'') (\<lambda>name. Inr (artist_id, name))) of
               Inl e \<Rightarrow> (Inl e, h1)
             | Inr (artist_id, name) \<Rightarrow>
                 (case artist_top_tracks_in_market sp artist_id market
                         (h1 @ [Print [PStr ''Found artist: '', name, PStr '' (id='', artist_id, PStr '')'']]) of
                    (Inl e, h3) \<Rightarrow> (Inl e, h3)
                  | (Inr top_tracks, h3) \<Rightarrow>
                      if \<not> truthy top_tracks
                      then (Inr None, h3 @ [Print [PStr ''No top tracks returned.'']])
                      else
                        (case and_then (iterate top_tracks) (map_result track_meta) of
                           Inl e \<Rightarrow> (Inl e, h3)
                         | Inr metas \<Rightarrow>
                             (case DataFrame (map fst metas) of
                                Inl e \<Rightarrow> (Inl e, h3)
                              | Inr df_meta \<Rightarrow>
                                  (case safe_audio_features sp (map snd metas) h3 of
                                     (Inl e, h4) \<Rightarrow> (Inl e, h4)
                                   | (Inr None, h4) \<Rightarrow>
                                       (Inr (Some df_meta),
                                        h4 @ [Print [PStr ''Audio features unavailable. Proceeding with metadata-only analysis.'']])
                                   | (Inr (Some feats), h4) \<Rightarrow>
                                       (case merge_features df_meta feats of
                                          Inl e \<Rightarrow> (Inl e, h4)
                                        | Inr df \<Rightarrow> (Inr (Some df), h4))))))))"

section \<open>The entry point\<close>

text \<open>
  How the process ends: normally, by \<open>SystemExit\<close> with a message (the interpreter
  writes the message to the error stream and exits with status 1), or by an uncaught
  exception (a traceback and status 1).
\<close>

datatype exit = Completed | SystemExit string | Uncaught exn

fun exit_status :: "exit \<Rightarrow> nat" where
  "exit_status Completed = 0"
| "exit_status (SystemExit msg) = 1"
| "exit_status (Uncaught e) = 1"

fun error_message :: "exit \<Rightarrow> string option" where
  "error_message (SystemExit msg) = Some msg"
| "error_message _ = None"

fun is_pause :: "event \<Rightarrow> bool" where
  "is_pause (Sleep_ms n) = (n = 100)"
| "is_pause _ = False"

fun is_figure :: "event \<Rightarrow> bool" where
  "is_figure (ShowFigure df) = True"
| "is_figure _ = False"

text \<open>\<open>df.head()\<close>: the first five rows.\<close>

definition head :: "dataframe \<Rightarrow> dataframe" where
  "head df = df\<lparr>rows := take 5 (rows df)\<rparr>"

text \<open>
  The main block. The scatter plot names five columns of the frame; the plotting
  library raises \<open>ValueError\<close> for a name that is not a column. What the library
  renders is not modelled: a figure that is shown is an event of the trace.
\<close>

definition main :: "spotify \<Rightarrow> exit \<times> event list" where
  "main sp =
     (case analyze_artist sp ''Arijit Singh'' ''IN'' [] of
        (Inl e, h) \<Rightarrow> (Uncaught e, h)
      | (Inr None, h) \<Rightarrow> (SystemExit ''No data returned.'', h)
      | (Inr (Some df), h) \<Rightarrow>
          if ''danceability'' \<in> set (columns df)
          then
            (if set [''tempo'', ''danceability'', ''popularity'', ''track_name'', ''artists'']
                  \<subseteq> set (columns df)
             then (Completed, h @ [PrintHead (head df), ShowFigure df])
             else (Uncaught ValueError, h @ [PrintHead (head df)]))
          else
            (Completed,
             h @ [PrintHead (head df),
                  Print [PStr ''No audio features available; try using a Kaggle audio-features dataset or request extended access from Spotify.'']]))"

section \<open>Example services\<close>

text \<open>
  Concrete services on which the theorems below are instantiated. \<open>example_service\<close>
  answers every request as the remote service documents it: one feature record per
  requested identifier, in request order. \<open>restricted_service\<close> refuses every
  audio-features request with a service-level error; \<open>flaky_service\<close> serves the first
  audio-features request and refuses the later ones; \<open>broken_service\<close> fails in the
  transport; \<open>terse_service\<close> answers every audio-features request with an empty list;
  \<open>unknown_artist_service\<close> finds no artist, \<open>no_tracks_service\<close> no top tracks, and
  \<open>duplicate_tracks_service\<close> lists one track twice.
\<close>

definition feature_of :: "pyval \<Rightarrow> pyval" where
  "feature_of tid = PDict [(''id'', tid), (''danceability'', PNum (1 / 2)), (''tempo'', PNum 120)]"

definition track_of :: "string \<Rightarrow> pyval" where
  "track_of i =
     PDict [(''name'', PStr (''song '' @ i)), (''id'', PStr i),
            (''artists'', PList [PDict [(''name'', PStr ''A'')], PDict [(''name'', PStr ''B'')]]),
            (''album'', PDict [(''name'', PStr ''album'')]),
            (''popularity'', PNum 80), (''duration_ms'', PNum 200000)]"

definition first_page :: pyval where
  "first_page = PDict [(''items'', PList [PStr ''i1'', PStr ''i2'']), (''next'', PStr ''page2'')]"

definition last_page :: pyval where
  "last_page = PDict [(''items'', PList [PStr ''i3'']), (''next'', PNone)]"

definition example_service :: spotify where
  "example_service =
     \<lparr>search = (\<lambda>h q. Inr (PDict [(''artists'', PDict [(''items'',
                  PList [PDict [(''id'', PStr ''a1''), (''name'', PStr ''Arijit Singh'')]])])])),
      artist_top_tracks = (\<lambda>h a m. Inr (PDict [(''tracks'', PList [track_of ''t1'', track_of ''t2''])])),
      audio_features = (\<lambda>h b. Inr (PList (map feature_of b))),
      playlist_items = (\<lambda>h p. Inr first_page),
      next_page = (\<lambda>h r. Inr last_page)\<rparr>"

definition restricted_service :: spotify where
  "restricted_service =
     example_service\<lparr>audio_features := (\<lambda>h b. Inl (SpotifyException ''403''))\<rparr>"

definition flaky_service :: spotify where
  "flaky_service =
     example_service\<lparr>audio_features :=
       (\<lambda>h b. if feature_requests h = [] then Inr (PList (map feature_of b))
              else Inl (SpotifyException ''429''))\<rparr>"

definition broken_service :: spotify where
  "broken_service =
     example_service\<lparr>audio_features := (\<lambda>h b. Inl (OtherError ''connection reset''))\<rparr>"

definition unknown_artist_service :: spotify where
  "unknown_artist_service =
     example_service\<lparr>search := (\<lambda>h q. Inr (PDict [(''artists'', PDict [(''items'', PList [])])]))\<rparr>"

definition search_returning :: "pyval \<Rightarrow> spotify" where
  "search_returning doc = example_service\<lparr>search := (\<lambda>h q. Inr doc)\<rparr>"

definition no_tracks_service :: spotify where
  "no_tracks_service =
     example_service\<lparr>artist_top_tracks := (\<lambda>h a m. Inr (PDict [(''tracks'', PList [])]))\<rparr>"

definition duplicate_meta :: dataframe where
  "duplicate_meta =
     \<lparr>columns = meta_columns,
      rows = [[PStr ''song t1'', PStr ''t1'', PStr ''A, B'', PStr ''album'', PNum 80, PNum 200000],
              [PStr ''song t1'', PStr ''t1'', PStr ''A, B'', PStr ''album'', PNum 80, PNum 200000]]\<rparr>"

definition example_meta :: dataframe where
  "example_meta =
     \<lparr>columns = meta_columns,
      rows = [[PStr ''song t1'', PStr ''t1'', PStr ''A, B'', PStr ''album'', PNum 80, PNum 200000],
              [PStr ''song t2'', PStr ''t2'', PStr ''A, B'', PStr ''album'', PNum 80, PNum 200000]]\<rparr>"


definition terse_service :: spotify where
  "terse_service = example_service\<lparr>audio_features := (\<lambda>h b. Inr (PList []))\<rparr>"

definition duplicate_tracks_service :: spotify where
  "duplicate_tracks_service =
     example_service\<lparr>artist_top_tracks :=
       (\<lambda>h a m. Inr (PDict [(''tracks'', PList [track_of ''t1'', track_of ''t1''])]))\<rparr>"

definition many_ids :: "pyval list" where
  "many_ids = map (\<lambda>n. PNum (of_nat n)) [0 ..< 101]"

section \<open>The batches\<close>

lemma concat_chunks_take:
  "concat (map (\<lambda>k. take n (drop (k * n) lst)) [0 ..< m]) = take (m * n) lst"
proof (induction m)
  case 0
  show ?case by simp
next
  case (Suc m)
  have "take (Suc m * n) lst = take (m * n) lst @ take n (drop (m * n) lst)"
    using take_add [of "m * n" n lst] by (simp add: add.commute)
  then show ?case using Suc.IH by simp
qed

lemma chunk_count_covers:
  assumes "0 < n"
  shows "len \<le> ((len + n - 1) div n) * (n::nat)"
proof (rule ccontr)
  assume "\<not> len \<le> ((len + n - 1) div n) * n"
  then have "Suc ((len + n - 1) div n) * n \<le> len + n - 1" using assms by simp
  then have "Suc ((len + n - 1) div n) \<le> (len + n - 1) div n"
    using assms by (simp only: less_eq_div_iff_mult_less_eq)
  then show False by simp
qed

lemma chunk_start_less:
  assumes "0 < n" and "k < (len + n - 1) div n"
  shows "k * n < (len::nat)"
proof -
  from assms have "Suc k \<le> (len + n - 1) div n" by simp
  then have "Suc k * n \<le> len + n - 1"
    using assms(1) by (simp only: less_eq_div_iff_mult_less_eq)
  then show ?thesis using assms(1) by simp
qed

lemma concat_chunked: "0 < n \<Longrightarrow> concat (chunked lst n) = lst"
  using concat_chunks_take [of n lst "(length lst + n - 1) div n"]
    chunk_count_covers [of n "length lst"]
  by (simp add: chunked_def py_range_def comp_def)

lemma length_chunked: "length (chunked lst n) = (length lst + n - 1) div n"
  by (simp add: chunked_def py_range_def)

lemma ceiling_div_100: "nat \<lceil>real L / 100\<rceil> = (L + 99) div 100"
  by linarith

lemma chunked_bounds:
  assumes "0 < n" and "b \<in> set (chunked lst n)"
  shows "b \<noteq> [] \<and> length b \<le> n"
proof -
  from assms(2) obtain k
    where k: "k < (length lst + n - 1) div n" and b: "b = take n (drop (k * n) lst)"
    by (auto simp: chunked_def py_range_def)
  from chunk_start_less [OF assms(1) k] have "k * n < length lst" .
  with b assms(1) show ?thesis by simp
qed

section \<open>The loop over the batches\<close>

lemma feature_requests_append [simp]:
  "feature_requests (xs @ ys) = feature_requests xs @ feature_requests ys"
  by (induction xs rule: feature_requests.induct) simp_all

lemma loop_prefix:
  "feature_loop sp bs acc h = (r, h') \<Longrightarrow>
     \<exists>new. h' = h @ new \<and> prefix (map fst (feature_requests new)) bs"
proof (induction bs arbitrary: acc h)
  case Nil
  then show ?case by simp
next
  case (Cons b bs)
  show ?case
  proof (cases "audio_features sp h b")
    case (Inl e)
    with Cons.prems show ?thesis by (cases e) (auto simp: Let_def)
  next
    case (Inr v)
    show ?thesis
    proof (cases "iterate v")
      case (Inl e)
      with Inr Cons.prems show ?thesis by (auto simp: Let_def)
    next
      case iter: (Inr fs)
      with Inr Cons.prems
      have "feature_loop sp bs (acc @ fs) (h @ [AudioFeatures b (Inr v), Sleep_ms 100]) = (r, h')"
        by (simp add: Let_def)
      from Cons.IH [OF this] Inr show ?thesis by auto
    qed
  qed
qed

lemma loop_success:
  "feature_loop sp bs acc h = (r, h') \<Longrightarrow>
     \<exists>new. h' = h @ new \<and>
       (list_all returned_list (map snd (feature_requests new)) \<longrightarrow>
          map fst (feature_requests new) = bs \<and>
          r = Inr (Some (acc @ concat (map (\<lambda>q. records_of (snd q)) (feature_requests new)))) \<and>
          new = concat (map (\<lambda>q. [AudioFeatures (fst q) (snd q), Sleep_ms 100])
                        (feature_requests new)))"
proof (induction bs arbitrary: acc h)
  case Nil
  then show ?case by simp
next
  case (Cons b bs)
  show ?case
  proof (cases "audio_features sp h b")
    case (Inl e)
    with Cons.prems show ?thesis by (cases e) (auto simp: Let_def)
  next
    case (Inr v)
    show ?thesis
    proof (cases "iterate v")
      case (Inl e)
      with Inr Cons.prems show ?thesis by (cases v) (auto simp: Let_def)
    next
      case iter: (Inr fs)
      with Inr Cons.prems
      have "feature_loop sp bs (acc @ fs) (h @ [AudioFeatures b (Inr v), Sleep_ms 100]) = (r, h')"
        by (simp add: Let_def)
      from Cons.IH [OF this] Inr iter show ?thesis by auto
    qed
  qed
qed

lemma loop_failure:
  "feature_loop sp bs acc h = (r, h') \<Longrightarrow>
     \<exists>new. h' = h @ new \<and>
       (\<forall>b m. (b, Inl (SpotifyException m)) \<in> set (feature_requests new) \<longrightarrow> r = Inr None) \<and>
       (\<forall>b e. (b, Inl e) \<in> set (feature_requests new) \<longrightarrow>
              (\<forall>m. e \<noteq> SpotifyException m) \<longrightarrow> r = Inl e) \<and>
       (r = Inr None \<longrightarrow>
          (\<exists>b m. (b, Inl (SpotifyException m)) \<in> set (feature_requests new))) \<and>
       (\<forall>fs. r = Inr (Some fs) \<longrightarrow>
          map fst (feature_requests new) = bs \<and>
          list_all (\<lambda>q. \<not> isl (snd q)) (feature_requests new) \<and>
          fs = acc @ concat (map (\<lambda>q. records_of (snd q)) (feature_requests new)))"
proof (induction bs arbitrary: acc h)
  case Nil
  then show ?case by auto
next
  case (Cons b bs)
  show ?case
  proof (cases "audio_features sp h b")
    case (Inl e)
    with Cons.prems show ?thesis by (cases e) (auto simp: Let_def)
  next
    case (Inr v)
    show ?thesis
    proof (cases "iterate v")
      case (Inl e)
      with Inr Cons.prems show ?thesis by (auto simp: Let_def)
    next
      case iter: (Inr fs)
      with Inr Cons.prems
      have "feature_loop sp bs (acc @ fs) (h @ [AudioFeatures b (Inr v), Sleep_ms 100]) = (r, h')"
        by (simp add: Let_def)
      from Cons.IH [OF this] Inr iter show ?thesis by auto
    qed
  qed
qed

lemma loop_stop:
  "feature_loop sp bs acc h = (r, h') \<Longrightarrow>
     \<exists>new. h' = h @ new \<and>
       list_all went_through (map snd (butlast (feature_requests new))) \<and>
       (map fst (feature_requests new) = bs \<and>
          list_all went_through (map snd (feature_requests new)) \<or>
        feature_requests new \<noteq> [] \<and> \<not> went_through (snd (last (feature_requests new))))"
proof (induction bs arbitrary: acc h)
  case Nil
  then show ?case by simp
next
  case (Cons b bs)
  show ?case
  proof (cases "audio_features sp h b")
    case (Inl e)
    with Cons.prems show ?thesis by (cases e) (auto simp: Let_def)
  next
    case (Inr v)
    show ?thesis
    proof (cases "iterate v")
      case (Inl e)
      with Inr Cons.prems show ?thesis by (auto simp: Let_def)
    next
      case iter: (Inr fs)
      with Inr Cons.prems
      have "feature_loop sp bs (acc @ fs) (h @ [AudioFeatures b (Inr v), Sleep_ms 100]) = (r, h')"
        by (simp add: Let_def)
      from Cons.IH [OF this] Inr iter show ?thesis by auto
    qed
  qed
qed

lemma concat_map_agree:
  "list_all (\<lambda>q. g q = k q) qs \<Longrightarrow> concat (map g qs) = concat (map k qs)"
  by (induction qs) auto

lemma length_concat_map_agree:
  "list_all (\<lambda>q. length (g q) = length (k q)) qs \<Longrightarrow>
     length (concat (map g qs)) = length (concat (map k qs))"
  by (induction qs) auto

text \<open>
  Claim C1, as the code has it. \<open>chunked\<close> cuts the identifiers into contiguous groups,
  none empty and none longer than 100; there are \<open>ceil(L/100)\<close> of them. The requests of
  a run are the groups in order, as far as the run gets: every request but the last went
  through, so a request that fails is the last one of the run, and a run that does not
  request every group ends with a failed request.
  When every request returns a list, one request per group is issued
  (\<open>ceil(L/100)\<close> requests) and the result is the concatenation of the returned lists in
  group order; when moreover each list has one record per requested identifier, the
  result has length \<open>L\<close>, and when the records carry the requested identifiers in request
  order, so does the result.
\<close>

theorem safe_audio_features_batches:
  assumes run: "safe_audio_features sp track_ids h = (r, h')"
  shows "\<exists>new. h' = h @ new \<and>
           concat (chunked track_ids 100) = track_ids \<and>
           list_all (\<lambda>b. b \<noteq> [] \<and> length b \<le> 100) (chunked track_ids 100) \<and>
           length (chunked track_ids 100) = nat \<lceil>real (length track_ids) / 100\<rceil> \<and>
           prefix (map fst (feature_requests new)) (chunked track_ids 100) \<and>
           list_all went_through (map snd (butlast (feature_requests new))) \<and>
           (map fst (feature_requests new) = chunked track_ids 100 \<and>
              list_all went_through (map snd (feature_requests new)) \<or>
            feature_requests new \<noteq> [] \<and>
              \<not> went_through (snd (last (feature_requests new)))) \<and>
           (list_all returned_list (map snd (feature_requests new)) \<longrightarrow>
              map fst (feature_requests new) = chunked track_ids 100 \<and>
              length (feature_requests new) = nat \<lceil>real (length track_ids) / 100\<rceil> \<and>
              r = Inr (Some (concat (map (\<lambda>q. records_of (snd q)) (feature_requests new)))) \<and>
              (list_all (\<lambda>q. length (records_of (snd q)) = length (fst q)) (feature_requests new) \<longrightarrow>
                 (\<exists>fs. r = Inr (Some fs) \<and> length fs = length track_ids)) \<and>
              (list_all (\<lambda>q. map (\<lambda>f. field f ''id'') (records_of (snd q)) = fst q)
                        (feature_requests new) \<longrightarrow>
                 (\<exists>fs. r = Inr (Some fs) \<and> map (\<lambda>f. field f ''id'') fs = track_ids)))"
proof -
  let ?bs = "chunked track_ids 100"
  from run have loop: "feature_loop sp ?bs [] h = (r, h')"
    by (simp add: safe_audio_features_def)
  from loop_prefix [OF loop] obtain new
    where new: "h' = h @ new" and pre: "prefix (map fst (feature_requests new)) ?bs"
    by blast
  from loop_stop [OF loop] new
  have stop: "list_all went_through (map snd (butlast (feature_requests new))) \<and>
              (map fst (feature_requests new) = ?bs \<and>
                 list_all went_through (map snd (feature_requests new)) \<or>
               feature_requests new \<noteq> [] \<and>
                 \<not> went_through (snd (last (feature_requests new))))"
    by auto
  from loop_success [OF loop] new
  have ok: "list_all returned_list (map snd (feature_requests new)) \<longrightarrow>
              map fst (feature_requests new) = ?bs \<and>
              r = Inr (Some (concat (map (\<lambda>q. records_of (snd q)) (feature_requests new))))"
    by auto
  have cat: "concat ?bs = track_ids" by (simp add: concat_chunked)
  have bounds: "list_all (\<lambda>b. b \<noteq> [] \<and> length b \<le> 100) ?bs"
    using chunked_bounds [of 100 _ track_ids] by (auto simp: list_all_iff)
  have count: "length ?bs = nat \<lceil>real (length track_ids) / 100\<rceil>"
    by (simp add: length_chunked ceiling_div_100)
  have len: "length (concat (map (\<lambda>q. records_of (snd q)) (feature_requests new))) = length track_ids"
    if "map fst (feature_requests new) = ?bs"
      and "list_all (\<lambda>q. length (records_of (snd q)) = length (fst q)) (feature_requests new)"
  proof -
    have "length (concat (map (\<lambda>q. records_of (snd q)) (feature_requests new)))
            = length (concat (map fst (feature_requests new)))"
      using that(2) by (rule length_concat_map_agree)
    with that(1) cat show ?thesis by simp
  qed
  have ids: "map (\<lambda>f. field f ''id'') (concat (map (\<lambda>q. records_of (snd q)) (feature_requests new)))
               = track_ids"
    if "map fst (feature_requests new) = ?bs"
      and "list_all (\<lambda>q. map (\<lambda>f. field f ''id'') (records_of (snd q)) = fst q) (feature_requests new)"
  proof -
    have "concat (map (\<lambda>q. map (\<lambda>f. field f ''id'') (records_of (snd q))) (feature_requests new))
            = concat (map fst (feature_requests new))"
      using that(2) by (rule concat_map_agree)
    with that(1) cat show ?thesis by (simp add: map_concat comp_def)
  qed
  have same_len: "length (feature_requests new) = length ?bs"
    if "map fst (feature_requests new) = ?bs"
    using that by (metis length_map)
  from new pre ok cat bounds count len ids same_len stop show ?thesis
    by (intro exI [of _ new]) auto
qed

text \<open>
  Witness for C1: 101 identifiers against the example service make two requests and
  come back as 101 records carrying the identifiers in order.
\<close>

theorem safe_audio_features_batches_witness:
  "\<exists>fs. fst (safe_audio_features example_service many_ids []) = Inr (Some fs) \<and>
        length fs = 101 \<and> map (\<lambda>f. field f ''id'') fs = many_ids \<and>
        length (feature_requests (snd (safe_audio_features example_service many_ids []))) = 2"
proof -
  let ?run = "safe_audio_features example_service many_ids []"
  have run: "?run = (fst ?run, snd ?run)" by simp
  have ok: "list_all returned_list (map snd (feature_requests (snd ?run)))" by code_simp
  have ids: "list_all (\<lambda>q. map (\<lambda>f. field f ''id'') (records_of (snd q)) = fst q)
               (feature_requests (snd ?run))" by code_simp
  have lens: "list_all (\<lambda>q. length (records_of (snd q)) = length (fst q))
               (feature_requests (snd ?run))" by code_simp
  have len: "length many_ids = 101" by code_simp
  have two: "nat \<lceil>real (length many_ids) / 100\<rceil> = 2" by code_simp
  from safe_audio_features_batches [OF run] ok ids lens len two show ?thesis by auto
qed

text \<open>
  C1 as stated fails: with 101 identifiers and a service that refuses the first request,
  one request is issued, not \<open>ceil(101/100) = 2\<close>. And a run in which no request raises
  returns what the service sent: against a service that answers with empty lists both
  requests return, and the result has length 0, not 101.
\<close>

theorem safe_audio_features_batches_counterexample:
  "length (feature_requests (snd (safe_audio_features restricted_service many_ids []))) = 1 \<and>
   nat \<lceil>real (length many_ids) / 100\<rceil> = 2 \<and>
   length many_ids = 101 \<and>
   list_all returned_list (map snd (feature_requests (snd (safe_audio_features terse_service many_ids [])))) \<and>
   fst (safe_audio_features terse_service many_ids []) = Inr (Some [])"
  by code_simp

text \<open>
  Claim C2. In a run of \<open>safe_audio_features\<close> in which a request raised a service-level
  error, the result is \<open>None\<close>. A result that is a sequence is never partial: every group
  was requested, no request raised, and the sequence holds the records of all of them.
  \<open>None\<close> differs from the empty sequence, which is what an empty input returns.
\<close>

theorem safe_audio_features_all_or_nothing:
  assumes run: "safe_audio_features sp track_ids h = (r, h')"
  shows "\<exists>new. h' = h @ new \<and>
           ((\<exists>b msg. (b, Inl (SpotifyException msg)) \<in> set (feature_requests new)) \<longrightarrow>
              r = Inr None) \<and>
           (\<forall>fs. r = Inr (Some fs) \<longrightarrow>
              map fst (feature_requests new) = chunked track_ids 100 \<and>
              list_all (\<lambda>q. \<not> isl (snd q)) (feature_requests new) \<and>
              fs = concat (map (\<lambda>q. records_of (snd q)) (feature_requests new))) \<and>
           fst (safe_audio_features sp [] h) = Inr (Some []) \<and>
           (Inr None :: exn + pyval list option) \<noteq> Inr (Some [])"
proof -
  from run have loop: "feature_loop sp (chunked track_ids 100) [] h = (r, h')"
    by (simp add: safe_audio_features_def)
  have empty: "fst (safe_audio_features sp [] h) = Inr (Some [])"
    by (simp add: safe_audio_features_def chunked_def py_range_def)
  from loop_failure [OF loop] empty show ?thesis by auto
qed

text \<open>
  Witness for C2: the flaky service serves the first group of 101 identifiers and refuses
  the second; the result is \<open>None\<close>, not the 100 records already collected.
\<close>

theorem safe_audio_features_all_or_nothing_witness:
  "fst (safe_audio_features flaky_service many_ids []) = Inr None \<and>
   length (feature_requests (snd (safe_audio_features flaky_service many_ids []))) = 2"
proof -
  let ?run = "safe_audio_features flaky_service many_ids []"
  have run: "?run = (fst ?run, snd ?run)" by simp
  have bad: "(drop 100 many_ids, Inl (SpotifyException ''429'')) \<in> set (feature_requests (snd ?run))"
    by code_simp
  have two: "length (feature_requests (snd ?run)) = 2" by code_simp
  from safe_audio_features_all_or_nothing [OF run] bad two show ?thesis by auto
qed

text \<open>
  Claim C8, as the code has it. In a run in which every request returns a list, the
  trace is, group by group, the request followed by a pause of 100 ms: a pause follows
  every request, the last one included. So a pause separates consecutive requests, and
  one more ends the run.
\<close>

theorem safe_audio_features_pauses:
  assumes run: "safe_audio_features sp track_ids h = (r, h')"
  shows "\<exists>new. h' = h @ new \<and>
           (list_all returned_list (map snd (feature_requests new)) \<longrightarrow>
              map fst (feature_requests new) = chunked track_ids 100 \<and>
              new = concat (map (\<lambda>q. [AudioFeatures (fst q) (snd q), Sleep_ms 100])
                            (feature_requests new)))"
proof -
  from run have loop: "feature_loop sp (chunked track_ids 100) [] h = (r, h')"
    by (simp add: safe_audio_features_def)
  from loop_success [OF loop] show ?thesis by auto
qed

text \<open>
  Witness for C8: two groups against the example service give request, pause, request,
  pause.
\<close>

theorem safe_audio_features_pauses_witness:
  "map is_pause (snd (safe_audio_features example_service many_ids [])) = [False, True, False, True]"
proof -
  let ?run = "safe_audio_features example_service many_ids []"
  have run: "?run = (fst ?run, snd ?run)" by simp
  have ok: "list_all returned_list (map snd (feature_requests (snd ?run)))" by code_simp
  have two: "length (feature_requests (snd ?run)) = 2" by code_simp
  from safe_audio_features_pauses [OF run] ok
  have shape: "snd ?run = concat (map (\<lambda>q. [AudioFeatures (fst q) (snd q), Sleep_ms 100])
                                   (feature_requests (snd ?run)))"
    by auto
  from two obtain q1 q2 where "feature_requests (snd ?run) = [q1, q2]"
    by (auto simp: numeral_2_eq_2 length_Suc_conv)
  with shape have "snd ?run = [AudioFeatures (fst q1) (snd q1), Sleep_ms 100,
                               AudioFeatures (fst q2) (snd q2), Sleep_ms 100]"
    by simp
  then show ?thesis by simp
qed

text \<open>
  C8 as stated fails: in the all-success run with two groups the last event is a pause,
  after the request of the final group.
\<close>

theorem safe_audio_features_pauses_counterexample:
  "snd (safe_audio_features example_service many_ids []) =
     [AudioFeatures (take 100 many_ids) (Inr (PList (map feature_of (take 100 many_ids)))),
      Sleep_ms 100,
      AudioFeatures (drop 100 many_ids) (Inr (PList (map feature_of (drop 100 many_ids)))),
      Sleep_ms 100]"
  by code_simp

section \<open>The artist search\<close>

text \<open>
  Claim C10, as the code has it. Let the search return a dictionary. When it has no
  \<open>artists\<close> entry, or its \<open>artists\<close> object has no \<open>items\<close> entry or an empty item list,
  \<open>search_artist\<close> returns \<open>None\<close> and does not raise. When the \<open>artists\<close> entry is an object,
  the function returns \<open>None\<close> for every falsy \<open>items\<close> value and otherwise what \<open>items[0]\<close>
  gives: the first item of a non-empty list, and an exception for a value that cannot
  be indexed so. When the \<open>artists\<close> entry is present and is not an object, the function
  raises \<open>AttributeError\<close>: the defaults of \<open>get\<close> cover absent keys only.
\<close>

theorem search_artist_missing_structure:
  assumes "search sp h (''artist:'' @ artist_name) = Inr (PDict res)"
  shows "(map_of res ''artists'' = None \<or>
          (\<exists>a. map_of res ''artists'' = Some (PDict a) \<and>
               (map_of a ''items'' = None \<or> map_of a ''items'' = Some (PList []))) \<longrightarrow>
            search_artist sp artist_name h =
              (Inr PNone, h @ [Search (''artist:'' @ artist_name) (Inr (PDict res))])) \<and>
         (\<forall>a v. map_of res ''artists'' = Some (PDict a) \<longrightarrow> map_of a ''items'' = Some v \<longrightarrow>
            search_artist sp artist_name h =
              (if truthy v then first_item v else Inr PNone,
               h @ [Search (''artist:'' @ artist_name) (Inr (PDict res))])) \<and>
         (\<forall>a x xs. map_of res ''artists'' = Some (PDict a) \<longrightarrow>
            map_of a ''items'' = Some (PList (x # xs)) \<longrightarrow>
            search_artist sp artist_name h =
              (Inr x, h @ [Search (''artist:'' @ artist_name) (Inr (PDict res))])) \<and>
         (\<forall>v. map_of res ''artists'' = Some v \<longrightarrow> \<not> is_dict v \<longrightarrow>
            search_artist sp artist_name h =
              (Inl AttributeError, h @ [Search (''artist:'' @ artist_name) (Inr (PDict res))]))"
proof (intro conjI allI impI)
  assume "map_of res ''artists'' = None \<or>
          (\<exists>a. map_of res ''artists'' = Some (PDict a) \<and>
               (map_of a ''items'' = None \<or> map_of a ''items'' = Some (PList [])))"
  with assms show "search_artist sp artist_name h =
      (Inr PNone, h @ [Search (''artist:'' @ artist_name) (Inr (PDict res))])"
    by (auto simp: search_artist_def Let_def)
next
  fix a v
  assume "map_of res ''artists'' = Some (PDict a)" "map_of a ''items'' = Some v"
  with assms show "search_artist sp artist_name h =
      (if truthy v then first_item v else Inr PNone,
       h @ [Search (''artist:'' @ artist_name) (Inr (PDict res))])"
    by (simp add: search_artist_def Let_def)
next
  fix a x xs
  assume "map_of res ''artists'' = Some (PDict a)" "map_of a ''items'' = Some (PList (x # xs))"
  with assms show "search_artist sp artist_name h =
      (Inr x, h @ [Search (''artist:'' @ artist_name) (Inr (PDict res))])"
    by (simp add: search_artist_def Let_def)
next
  fix v
  assume "map_of res ''artists'' = Some v" "\<not> is_dict v"
  with assms show "search_artist sp artist_name h =
      (Inl AttributeError, h @ [Search (''artist:'' @ artist_name) (Inr (PDict res))])"
    by (cases v) (simp_all add: search_artist_def Let_def)
qed

text \<open>
  Witness for C10: one response for each of the three cases that return \<open>None\<close>, one with
  an artist, and one whose \<open>artists\<close> entry is null.
\<close>

theorem search_artist_missing_structure_witness:
  "fst (search_artist (search_returning (PDict [])) ''Nobody'' []) = Inr PNone \<and>
   fst (search_artist (search_returning (PDict [(''artists'', PDict [])])) ''Nobody'' []) = Inr PNone \<and>
   fst (search_artist (search_returning (PDict [(''artists'', PDict [(''items'', PList [])])])) ''Nobody'' []) = Inr PNone \<and>
   fst (search_artist (search_returning (PDict [(''artists'', PDict [(''items'', PList [PStr ''a1''])])])) ''Nobody'' []) = Inr (PStr ''a1'') \<and>
   fst (search_artist (search_returning (PDict [(''artists'', PBool True)])) ''Nobody'' []) = Inl AttributeError"
  using search_artist_missing_structure [of "search_returning (PDict [])" "[]" "''Nobody''" "[]"]
    search_artist_missing_structure [of "search_returning (PDict [(''artists'', PDict [])])" "[]" "''Nobody''" "[(''artists'', PDict [])]"]
    search_artist_missing_structure [of "search_returning (PDict [(''artists'', PDict [(''items'', PList [])])])" "[]" "''Nobody''" "[(''artists'', PDict [(''items'', PList [])])]"]
    search_artist_missing_structure [of "search_returning (PDict [(''artists'', PDict [(''items'', PList [PStr ''a1''])])])" "[]" "''Nobody''" "[(''artists'', PDict [(''items'', PList [PStr ''a1''])])]"]
    search_artist_missing_structure [of "search_returning (PDict [(''artists'', PBool True)])" "[]" "''Nobody''" "[(''artists'', PBool True)]"]
  by (simp add: search_returning_def example_service_def)

text \<open>
  C10 as stated fails: a response dictionary whose \<open>artists\<close> entry is null lacks the
  \<open>artists\<close> object, and \<open>search_artist\<close> raises \<open>AttributeError\<close>; a response whose \<open>items\<close>
  entry is the number 5 lacks the item list, and \<open>search_artist\<close> raises \<open>TypeError\<close>.
\<close>

theorem search_artist_missing_structure_counterexample:
  "fst (search_artist (search_returning (PDict [(''artists'', PNone)])) ''Nobody'' [])
     = Inl AttributeError \<and>
   fst (search_artist (search_returning (PDict [(''artists'', PDict [(''items'', PNum 5)])]))
          ''Nobody'' [])
     = Inl TypeError"
  by (simp add: search_artist_def search_returning_def example_service_def)

text \<open>
  Claim C5. When the search yields no items, \<open>search_artist\<close> returns \<open>None\<close>, and a run
  of \<open>analyze_artist\<close> consists of the search request and the message that the artist was
  not found: no further request is made, and the result is \<open>None\<close>, no table.
\<close>

theorem analyze_artist_not_found:
  assumes "search sp h (''artist:'' @ artist_name) = Inr res"
    and "and_then (dict_get res ''artists'' (PDict [])) (\<lambda>a. dict_get a ''items'' (PList []))
           = Inr (PList [])"
  shows "search_artist sp artist_name h
           = (Inr PNone, h @ [Search (''artist:'' @ artist_name) (Inr res)]) \<and>
         analyze_artist sp artist_name market h
           = (Inr None, h @ [Search (''artist:'' @ artist_name) (Inr res),
                             Print [PStr ''Artist not found:'', PStr artist_name]])"
  using assms by (simp add: analyze_artist_def search_artist_def Let_def)

text \<open>Witness for C5: the service that finds no artist.\<close>

theorem analyze_artist_not_found_witness:
  "analyze_artist unknown_artist_service ''Nobody'' ''IN'' []
     = (Inr None, [Search ''artist:Nobody'' (Inr (PDict [(''artists'', PDict [(''items'', PList [])])])),
                   Print [PStr ''Artist not found:'', PStr ''Nobody'']])"
  using analyze_artist_not_found [of unknown_artist_service "[]" "''Nobody''"
      "PDict [(''artists'', PDict [(''items'', PList [])])]" "''IN''"]
  by (simp add: unknown_artist_service_def example_service_def)

section \<open>The entry point without data\<close>

lemma loop_no_figure:
  "feature_loop sp bs acc h = (r, h') \<Longrightarrow> list_ex is_figure h' = list_ex is_figure h"
proof (induction bs arbitrary: acc h)
  case Nil
  then show ?case by auto
next
  case (Cons b bs)
  show ?case
  proof (cases "audio_features sp h b")
    case (Inl e)
    with Cons.prems show ?thesis by (cases e) (auto simp: Let_def)
  next
    case (Inr v)
    show ?thesis
    proof (cases "iterate v")
      case (Inl e)
      with Inr Cons.prems show ?thesis by (auto simp: Let_def)
    next
      case iter: (Inr fs)
      with Inr Cons.prems
      have "feature_loop sp bs (acc @ fs) (h @ [AudioFeatures b (Inr v), Sleep_ms 100]) = (r, h')"
        by (simp add: Let_def)
      from Cons.IH [OF this] show ?thesis by simp
    qed
  qed
qed

lemma search_artist_trace:
  "search_artist sp n h = (r, h') \<Longrightarrow> \<exists>res. h' = h @ [Search (''artist:'' @ n) res]"
  by (auto simp: search_artist_def Let_def split: sum.splits if_splits)

lemma top_tracks_trace:
  "artist_top_tracks_in_market sp a m h = (r, h') \<Longrightarrow> \<exists>res. h' = h @ [ArtistTopTracks a m res]"
  by (auto simp: artist_top_tracks_in_market_def Let_def split: sum.splits)

lemma analyze_artist_no_figure:
  assumes "analyze_artist sp n m h = (r, h')"
  shows "list_ex is_figure h' = list_ex is_figure h"
  using assms
  unfolding analyze_artist_def
  by (auto split: prod.splits sum.splits if_splits option.splits
      dest!: search_artist_trace top_tracks_trace
      dest: loop_no_figure simp: safe_audio_features_def)

lemma analyze_artist_none_cases:
  assumes "analyze_artist sp n m h = (Inr None, h')"
  shows "(\<exists>res. h' = h @ [Search (''artist:'' @ n) res, Print [PStr ''Artist not found:'', PStr n]]) \<or>
         (\<exists>res name aid top. h' = h @ [Search (''artist:'' @ n) res,
              Print [PStr ''Found artist: '', name, PStr '' (id='', aid, PStr '')''],
              ArtistTopTracks aid m top, Print [PStr ''No top tracks returned.'']])"
  using assms
  unfolding analyze_artist_def
  by (auto split: prod.splits sum.splits if_splits option.splits
      dest!: search_artist_trace top_tracks_trace)

text \<open>
  Claim C7. When \<open>analyze_artist\<close> returns \<open>None\<close>, the main block ends by
  \<open>SystemExit\<close> with the message \<open>No data returned.\<close>, hence with a non-zero status, and
  no figure is shown.
\<close>

theorem main_no_data:
  assumes "fst (analyze_artist sp ''Arijit Singh'' ''IN'' []) = Inr None"
  shows "fst (main sp) = SystemExit ''No data returned.'' \<and>
         exit_status (fst (main sp)) \<noteq> 0 \<and>
         error_message (fst (main sp)) = Some ''No data returned.'' \<and>
         \<not> list_ex is_figure (snd (main sp))"
proof -
  obtain r tr where run: "analyze_artist sp ''Arijit Singh'' ''IN'' [] = (r, tr)"
    by (cases "analyze_artist sp ''Arijit Singh'' ''IN'' []")
  with assms have r: "r = Inr None" by simp
  from analyze_artist_no_figure [OF run] have "\<not> list_ex is_figure tr" by simp
  with run r show ?thesis by (simp add: main_def)
qed

text \<open>
  Witness for C7: an artist that is not found, and an artist without top tracks.
\<close>

theorem main_no_data_witness:
  "exit_status (fst (main unknown_artist_service)) = 1 \<and>
   error_message (fst (main unknown_artist_service)) = Some ''No data returned.'' \<and>
   \<not> list_ex is_figure (snd (main unknown_artist_service)) \<and>
   exit_status (fst (main no_tracks_service)) = 1 \<and>
   error_message (fst (main no_tracks_service)) = Some ''No data returned.'' \<and>
   \<not> list_ex is_figure (snd (main no_tracks_service))"
proof -
  have a: "fst (analyze_artist unknown_artist_service ''Arijit Singh'' ''IN'' []) = Inr None"
    by code_simp
  have b: "fst (analyze_artist no_tracks_service ''Arijit Singh'' ''IN'' []) = Inr None"
    by code_simp
  from main_no_data [OF a] main_no_data [OF b] show ?thesis by simp
qed

section \<open>Pagination\<close>

lemma playlist_loop_chain:
  "page_chain sp (p # ps) \<Longrightarrow>
     playlist_loop sp p (PList acc) h =
       Some (Inr (PList (acc @ concat (map (\<lambda>q. the (items_of q)) ps))),
             h @ map (\<lambda>pq. NextPage (fst pq) (Inr (snd pq))) (zip (p # ps) ps))"
proof (induction ps arbitrary: p acc h)
  case Nil
  then obtain d where p: "p = PDict d" by (cases p) auto
  with Nil have "\<not> truthy (case map_of d ''next'' of Some v \<Rightarrow> v | None \<Rightarrow> PNone)"
    by (auto split: option.splits)
  with p show ?case by (subst playlist_loop.simps) simp
next
  case (Cons q qs)
  from Cons.prems have chain: "page_chain sp (q # qs)" and nxt: "has_next p"
    and step: "next_page sp h p = Inr q" and itq: "items_of q \<noteq> None"
    by (cases qs; simp)+
  from nxt obtain d where p: "p = PDict d" by (cases p) auto
  with nxt have t: "truthy (case map_of d ''next'' of Some v \<Rightarrow> v | None \<Rightarrow> PNone)"
    by (auto split: option.splits)
  from itq obtain d' xs where q: "q = PDict d'" and xs: "map_of d' ''items'' = Some (PList xs)"
    by (cases q) (auto split: option.splits pyval.splits)
  have "playlist_loop sp p (PList acc) h
          = playlist_loop sp q (PList (acc @ xs)) (h @ [NextPage p (Inr q)])"
    using p t step q xs by (subst playlist_loop.simps) (simp add: Let_def)
  also have "\<dots> = Some (Inr (PList ((acc @ xs) @ concat (map (\<lambda>q. the (items_of q)) qs))),
             (h @ [NextPage p (Inr q)]) @ map (\<lambda>pq. NextPage (fst pq) (Inr (snd pq))) (zip (q # qs) qs))"
    by (rule Cons.IH [OF chain])
  finally show ?case using q xs by simp
qed

text \<open>
  Claim C6. When the pages of a playlist form a chain, \<open>get_playlist_tracks\<close> returns,
  and what it returns is the concatenation of the item lists of the pages in page
  order; it makes one request for the first page and one for each further page.
\<close>

theorem get_playlist_tracks_depaginates:
  assumes first: "playlist_items sp h playlist_id = Inr p"
    and chain: "page_chain sp (p # ps)"
  shows "get_playlist_tracks sp playlist_id h =
           Some (Inr (PList (concat (map (\<lambda>q. the (items_of q)) (p # ps)))),
                 h @ PlaylistItems playlist_id (Inr p)
                     # map (\<lambda>pq. NextPage (fst pq) (Inr (snd pq))) (zip (p # ps) ps))"
proof -
  from chain have "items_of p \<noteq> None" by (cases ps) simp_all
  then obtain d xs where p: "p = PDict d" and xs: "map_of d ''items'' = Some (PList xs)"
    by (cases p) (auto split: option.splits pyval.splits)
  from playlist_loop_chain [OF chain, of xs "h @ [PlaylistItems playlist_id (Inr p)]"] first p xs
  show ?thesis by (simp add: get_playlist_tracks_def Let_def)
qed

text \<open>Witness for C6: the two pages of the example service.\<close>

theorem get_playlist_tracks_depaginates_witness:
  "get_playlist_tracks example_service ''pl'' [] =
     Some (Inr (PList [PStr ''i1'', PStr ''i2'', PStr ''i3'']),
           [PlaylistItems ''pl'' (Inr first_page), NextPage first_page (Inr last_page)])"
proof -
  have first: "playlist_items example_service [] ''pl'' = Inr first_page"
    by (simp add: example_service_def)
  have chain: "page_chain example_service [first_page, last_page]"
    by (simp add: example_service_def first_page_def last_page_def)
  from get_playlist_tracks_depaginates [OF first chain] show ?thesis
    by (simp add: first_page_def last_page_def)
qed

section \<open>The stages of the analysis\<close>

text \<open>
  A run of \<open>analyze_artist\<close> either ends before the feature fetch, without any
  audio-features request, or reaches it with the metadata frame built from the top
  tracks that the service returned; the fetch then decides the result.
\<close>

lemma saf_extends:
  "safe_audio_features sp ids h = (r, h') \<Longrightarrow> \<exists>new. h' = h @ new"
  using loop_prefix [of sp "chunked ids 100" "[]" h r h'] by (auto simp: safe_audio_features_def)

lemma saf_failure:
  assumes "safe_audio_features sp ids h = (r, h @ new)"
  shows "(\<forall>b m. (b, Inl (SpotifyException m)) \<in> set (feature_requests new) \<longrightarrow> r = Inr None) \<and>
         (\<forall>b e. (b, Inl e) \<in> set (feature_requests new) \<longrightarrow>
                (\<forall>m. e \<noteq> SpotifyException m) \<longrightarrow> r = Inl e) \<and>
         (r = Inr None \<longrightarrow>
            (\<exists>b m. (b, Inl (SpotifyException m)) \<in> set (feature_requests new)))"
  using loop_failure [of sp "chunked ids 100" "[]" h r "h @ new"] assms
  by (auto simp: safe_audio_features_def)

lemma analyze_artist_stages:
  assumes run: "analyze_artist sp n m h = (r, h')"
  shows "(\<exists>pre. h' = h @ pre \<and> feature_requests pre = []) \<or>
         (\<exists>pre aid top tracks metas df_meta r4 new4.
            feature_requests pre = [] \<and> ArtistTopTracks aid m (Inr top) \<in> set pre \<and>
            dict_get top ''tracks'' (PList []) = Inr tracks \<and> truthy tracks \<and>
            and_then (iterate tracks) (map_result track_meta) = Inr metas \<and>
            DataFrame (map fst metas) = Inr df_meta \<and>
            safe_audio_features sp (map snd metas) (h @ pre) = (r4, h @ pre @ new4) \<and>
            (case r4 of
               Inl e \<Rightarrow> r = Inl e \<and> h' = h @ pre @ new4
             | Inr None \<Rightarrow> r = Inr (Some df_meta) \<and>
                 h' = h @ pre @ new4 @ [Print [PStr ''Audio features unavailable. Proceeding with metadata-only analysis.'']]
             | Inr (Some feats) \<Rightarrow> h' = h @ pre @ new4 \<and>
                 r = (case merge_features df_meta feats of Inl e \<Rightarrow> Inl e | Inr df \<Rightarrow> Inr (Some df))))"
proof -
  obtain ra h1 where sa: "search_artist sp n h = (ra, h1)" by (cases "search_artist sp n h")
  from search_artist_trace [OF sa] obtain res where h1: "h1 = h @ [Search (''artist:'' @ n) res]" by blast
  show ?thesis
  proof (cases ra)
    case (Inl e)
    with run sa h1 show ?thesis by (auto simp: analyze_artist_def)
  next
    case (Inr artist)
    show ?thesis
    proof (cases "truthy artist")
      case False
      with run sa h1 Inr show ?thesis by (auto simp: analyze_artist_def)
    next
      case True
      show ?thesis
      proof (cases "and_then (subscript artist ''id'') (\<lambda>artist_id.
                  and_then (subscript artist ''name'') (\<lambda>name. Inr (artist_id, name)))")
        case (Inl e)
        with run sa h1 Inr True show ?thesis by (auto simp: analyze_artist_def)
      next
        case idname: (Inr p)
        obtain aid name where p: "p = (aid, name)" by (cases p)
        let ?h2 = "h1 @ [Print [PStr ''Found artist: '', name, PStr '' (id='', aid, PStr '')'']]"
        obtain rt h3 where tt: "artist_top_tracks_in_market sp aid m ?h2 = (rt, h3)"
          by (cases "artist_top_tracks_in_market sp aid m ?h2")
        from top_tracks_trace [OF tt] obtain top where h3: "h3 = ?h2 @ [ArtistTopTracks aid m top]" by blast
        from tt h3 have rt: "rt = (case top of Inl e \<Rightarrow> Inl e | Inr d \<Rightarrow> dict_get d ''tracks'' (PList []))"
          by (auto simp: artist_top_tracks_in_market_def Let_def split: sum.splits)
        let ?pre = "[Search (''artist:'' @ n) res,
                     Print [PStr ''Found artist: '', name, PStr '' (id='', aid, PStr '')''],
                     ArtistTopTracks aid m top]"
        have h3': "h3 = h @ ?pre" using h3 h1 by simp
        have fr: "feature_requests ?pre = []" by simp
        show ?thesis
        proof (cases rt)
          case (Inl e)
          with run sa Inr True idname p tt h3' show ?thesis
            by (auto simp: analyze_artist_def)
        next
          case tracks: (Inr tracks)
          with rt obtain d where top: "top = Inr d" and d: "dict_get d ''tracks'' (PList []) = Inr tracks"
            by (cases top) auto
          show ?thesis
          proof (cases "truthy tracks")
            case False
            with run sa Inr True idname p tt h3' tracks show ?thesis
              by (auto simp: analyze_artist_def)
          next
            case tr: True
            show ?thesis
            proof (cases "and_then (iterate tracks) (map_result track_meta)")
              case (Inl e)
              with run sa Inr True idname p tt h3' tracks tr show ?thesis
                by (auto simp: analyze_artist_def)
            next
              case metas: (Inr metas)
              show ?thesis
              proof (cases "DataFrame (map fst metas)")
                case (Inl e)
                with run sa Inr True idname p tt h3' tracks tr metas show ?thesis
                  by (auto simp: analyze_artist_def)
              next
                case df: (Inr df_meta)
                obtain r4 h4 where saf: "safe_audio_features sp (map snd metas) h3 = (r4, h4)"
                  by (cases "safe_audio_features sp (map snd metas) h3")
                from saf_extends [OF saf] obtain new4 where h4: "h4 = h3 @ new4" by blast
                have saf': "safe_audio_features sp (map snd metas) (h @ ?pre) = (r4, h @ ?pre @ new4)"
                  using saf h4 h3' by simp
                have fin: "(case r4 of
                     Inl e \<Rightarrow> r = Inl e \<and> h' = h @ ?pre @ new4
                   | Inr None \<Rightarrow> r = Inr (Some df_meta) \<and>
                       h' = h @ ?pre @ new4 @ [Print [PStr ''Audio features unavailable. Proceeding with metadata-only analysis.'']]
                   | Inr (Some feats) \<Rightarrow> h' = h @ ?pre @ new4 \<and>
                       r = (case merge_features df_meta feats of Inl e \<Rightarrow> Inl e | Inr df \<Rightarrow> Inr (Some df)))"
                  using run sa Inr True idname p tt tracks tr metas df saf h4 h3'
                  by (auto simp: analyze_artist_def split: sum.splits option.splits)
                have mem: "ArtistTopTracks aid m (Inr d) \<in> set ?pre" using top by simp
                from fr mem d tr metas df saf' fin top show ?thesis
                  by (intro disjI2 exI [of _ ?pre] exI [of _ aid] exI [of _ d] exI [of _ tracks]
                      exI [of _ metas] exI [of _ df_meta] exI [of _ r4] exI [of _ new4]) simp
              qed
            qed
          qed
        qed
      qed
    qed
  qed
qed

text \<open>
  Claim C9. In a run of \<open>safe_audio_features\<close>, a request that raises a
  \<open>SpotifyException\<close> makes the result \<open>None\<close>; a request that raises anything else makes
  the function raise that exception; and the result is \<open>None\<close> only when a request raised
  a \<open>SpotifyException\<close>. In a run of \<open>analyze_artist\<close>, a \<open>SpotifyException\<close> of a feature
  request leaves a table as the result (the metadata-only path), while any other
  exception of a feature request is the outcome of the run: the analysis raises it and
  returns no table.
\<close>

theorem only_service_errors_are_caught:
  "(safe_audio_features sp track_ids h = (r, h') \<longrightarrow>
      (\<exists>new. h' = h @ new \<and>
         (\<forall>b msg. (b, Inl (SpotifyException msg)) \<in> set (feature_requests new) \<longrightarrow>
                r = Inr None) \<and>
         (\<forall>b e. (b, Inl e) \<in> set (feature_requests new) \<longrightarrow>
                (\<forall>msg. e \<noteq> SpotifyException msg) \<longrightarrow> r = Inl e) \<and>
         (r = Inr None \<longrightarrow>
            (\<exists>b msg. (b, Inl (SpotifyException msg)) \<in> set (feature_requests new))))) \<and>
   (analyze_artist sp artist_name market h0 = (r0, h0') \<longrightarrow>
      (\<exists>new. h0' = h0 @ new \<and>
         (\<forall>b msg. (b, Inl (SpotifyException msg)) \<in> set (feature_requests new) \<longrightarrow>
                (\<exists>df. r0 = Inr (Some df))) \<and>
         (\<forall>b e. (b, Inl e) \<in> set (feature_requests new) \<longrightarrow>
                (\<forall>msg. e \<noteq> SpotifyException msg) \<longrightarrow> r0 = Inl e)))"
proof (intro conjI impI)
  assume run: "safe_audio_features sp track_ids h = (r, h')"
  from saf_extends [OF run] obtain new where new: "h' = h @ new" by blast
  with run saf_failure [of sp track_ids h r new] show
    "\<exists>new. h' = h @ new \<and>
         (\<forall>b msg. (b, Inl (SpotifyException msg)) \<in> set (feature_requests new) \<longrightarrow>
                r = Inr None) \<and>
         (\<forall>b e. (b, Inl e) \<in> set (feature_requests new) \<longrightarrow>
                (\<forall>msg. e \<noteq> SpotifyException msg) \<longrightarrow> r = Inl e) \<and>
         (r = Inr None \<longrightarrow>
            (\<exists>b msg. (b, Inl (SpotifyException msg)) \<in> set (feature_requests new)))"
    by blast
next
  assume run: "analyze_artist sp artist_name market h0 = (r0, h0')"
  from analyze_artist_stages [OF run] show
    "\<exists>new. h0' = h0 @ new \<and>
         (\<forall>b msg. (b, Inl (SpotifyException msg)) \<in> set (feature_requests new) \<longrightarrow>
                (\<exists>df. r0 = Inr (Some df))) \<and>
         (\<forall>b e. (b, Inl e) \<in> set (feature_requests new) \<longrightarrow>
                (\<forall>msg. e \<noteq> SpotifyException msg) \<longrightarrow> r0 = Inl e)"
  proof (elim disjE exE conjE)
    fix pre
    assume "h0' = h0 @ pre" "feature_requests pre = []"
    then show ?thesis by auto
  next
    fix pre aid top tracks metas df_meta r4 new4
    assume pre: "feature_requests pre = []"
      and saf: "safe_audio_features sp (map snd metas) (h0 @ pre) = (r4, h0 @ pre @ new4)"
      and fin: "case r4 of
               Inl e \<Rightarrow> r0 = Inl e \<and> h0' = h0 @ pre @ new4
             | Inr None \<Rightarrow> r0 = Inr (Some df_meta) \<and>
                 h0' = h0 @ pre @ new4 @ [Print [PStr ''Audio features unavailable. Proceeding with metadata-only analysis.'']]
             | Inr (Some feats) \<Rightarrow> h0' = h0 @ pre @ new4 \<and>
                 r0 = (case merge_features df_meta feats of Inl e \<Rightarrow> Inl e | Inr df \<Rightarrow> Inr (Some df))"
    from saf have saf': "safe_audio_features sp (map snd metas) (h0 @ pre) = (r4, (h0 @ pre) @ new4)"
      by simp
    note f = saf_failure [OF saf']
    show ?thesis
    proof (cases r4)
      case (Inl e)
      with fin f pre show ?thesis by (intro exI [of _ "pre @ new4"]) (auto; blast)
    next
      case (Inr res)
      show ?thesis
      proof (cases res)
        case None
        with Inr fin f pre show ?thesis
          by (intro exI [of _ "pre @ new4 @ [Print [PStr ''Audio features unavailable. Proceeding with metadata-only analysis.'']]"]) (auto; blast)
      next
        case (Some feats)
        with Inr fin f pre show ?thesis by (intro exI [of _ "pre @ new4"]) (auto; blast)
      qed
    qed
  qed
qed

text \<open>
  Witness for C9: the transport error of the broken service leaves both functions; the
  service-level error of the restricted service becomes \<open>None\<close>, and the analysis still
  returns a table.
\<close>

theorem only_service_errors_are_caught_witness:
  "fst (safe_audio_features broken_service many_ids []) = Inl (OtherError ''connection reset'') \<and>
   fst (analyze_artist broken_service ''Arijit Singh'' ''IN'' []) = Inl (OtherError ''connection reset'') \<and>
   fst (safe_audio_features restricted_service many_ids []) = Inr None \<and>
   (\<exists>df. fst (analyze_artist restricted_service ''Arijit Singh'' ''IN'' []) = Inr (Some df))"
proof -
  let ?run = "safe_audio_features broken_service many_ids []"
  let ?ana = "analyze_artist broken_service ''Arijit Singh'' ''IN'' []"
  let ?run' = "safe_audio_features restricted_service many_ids []"
  let ?ana' = "analyze_artist restricted_service ''Arijit Singh'' ''IN'' []"
  have run: "?run = (fst ?run, snd ?run)" by simp
  have ana: "?ana = (fst ?ana, snd ?ana)" by simp
  have run': "?run' = (fst ?run', snd ?run')" by simp
  have ana': "?ana' = (fst ?ana', snd ?ana')" by simp
  have a: "(take 100 many_ids, Inl (OtherError ''connection reset'')) \<in> set (feature_requests (snd ?run))"
    by code_simp
  have b: "([PStr ''t1'', PStr ''t2''], Inl (OtherError ''connection reset'')) \<in> set (feature_requests (snd ?ana))"
    by code_simp
  have a': "(take 100 many_ids, Inl (SpotifyException ''403'')) \<in> set (feature_requests (snd ?run'))"
    by code_simp
  have b': "([PStr ''t1'', PStr ''t2''], Inl (SpotifyException ''403'')) \<in> set (feature_requests (snd ?ana'))"
    by code_simp
  from only_service_errors_are_caught [of broken_service many_ids "[]" "fst ?run" "snd ?run"
      "''Arijit Singh''" "''IN''" "[]" "fst ?ana" "snd ?ana"] run ana a b
  have first: "fst ?run = Inl (OtherError ''connection reset'') \<and>
               fst ?ana = Inl (OtherError ''connection reset'')"
    by auto
  from only_service_errors_are_caught [of restricted_service many_ids "[]" "fst ?run'" "snd ?run'"
      "''Arijit Singh''" "''IN''" "[]" "fst ?ana'" "snd ?ana'"] run' ana' a' b'
  have second: "fst ?run' = Inr None \<and> (\<exists>df. fst ?ana' = Inr (Some df))"
    by auto
  from first second show ?thesis by simp
qed

section \<open>The metadata table\<close>









section \<open>The join\<close>



lemma set_first_seen [simp]: "set (first_seen xs) = set xs"
  by (simp add: first_seen_def)







text \<open>
  Outside the theorem's hypotheses: feature records whose identifiers are numbers cannot
  be merged onto the string identifiers of the metadata; the merge raises \<open>ValueError\<close>.
\<close>

lemma merge_features_number_ids:
  "merge_features example_meta [PDict [(''id'', PNum 1), (''tempo'', PNum 120)]] = Inl ValueError"
  by code_simp

text \<open>
  The same in a whole run: when the service lists one track twice among the top tracks
  and returns one feature record per requested identifier, the metadata table has two
  rows and the merged table four.
\<close>

lemma analyze_artist_duplicate_tracks:
  "map_sum id (map_option (\<lambda>df. length (rows df)))
     (fst (analyze_artist duplicate_tracks_service ''Arijit Singh'' ''IN'' [])) = Inr (Some 4) \<and>
   map_result track_meta [track_of ''t1'', track_of ''t1'']
     = Inr [(PDict (zip meta_columns (hd (rows duplicate_meta))), PStr ''t1''),
            (PDict (zip meta_columns (hd (rows duplicate_meta))), PStr ''t1'')]"
  by code_simp

end
